theory Spec2Isabelle
  imports Complex_Main
begin

section \<open>Data model of the inventory application\<close>

text \<open>
  The Django models of \<^verbatim>\<open>inventory/models.py\<close> and \<^verbatim>\<open>products/models.py\<close> become
  records that keep the columns the ledger operations read or write. Primary keys (UUIDs)
  are natural numbers, \<^verbatim>\<open>IntegerField\<close>s are Python's unbounded integers,
  \<^verbatim>\<open>DecimalField\<close>s are rationals, timestamps are integers, and \<^verbatim>\<open>CharField\<close>s
  with choices stay strings, since the code compares them as strings. Unit cost and total
  value of a stock row, reservation numbers and \<^verbatim>\<open>Product.stock_quantity\<close> are computed
  on save and read by none of the operations below; they are left out, and so is the
  opaque order and customer linkage of a reservation.

  Python resolves names and attributes when a statement runs, and a name or attribute that
  is not there raises. \<^verbatim>\<open>inventory/services.py\<close> imports \<^verbatim>\<open>Product\<close> from
  \<^verbatim>\<open>inventory.models\<close>, which defines no such name, uses \<^verbatim>\<open>models.Sum\<close> without ever
  binding \<^verbatim>\<open>models\<close>, and reads \<^verbatim>\<open>product.is_active_computed\<close> and
  \<^verbatim>\<open>product.allow_backorders\<close>, where the \<^verbatim>\<open>Product\<close> model declares
  \<^verbatim>\<open>is_active\<close> and \<^verbatim>\<open>allow_backorder\<close>. These lookups are part of the model: each
  is a step that returns or raises, so the operations below do what the files as they
  stand do.
\<close>

record product =
  p_id :: nat
  is_active :: bool
  allow_backorder :: bool

record warehouse =
  w_id :: nat
  total_capacity :: rat
  used_capacity :: rat

record inventory =
  inv_id :: nat
  inv_product :: nat
  inv_warehouse :: nat
  quantity :: int
  reserved_quantity :: int
  available_quantity :: int
  expiry_date :: "int option"
  inv_created_at :: int
  inv_status :: string

record reservation =
  r_id :: nat
  r_product :: nat
  r_quantity :: int
  backorder_quantity :: int
  r_status :: string
  expires_at :: "int option"
  allocated_at :: "int option"
  released_at :: "int option"

record allocation =
  a_reservation :: nat
  a_inventory :: nat
  a_quantity :: int

record adjustment_item =
  item_inventory :: nat
  quantity_change :: int
  adjustment_reason :: string

record adjustment =
  adj_status :: string
  adjustment_items :: "adjustment_item list"

text \<open>
  The database: each table is the list of its rows in the order a query over it returns
  them (\<^verbatim>\<open>Inventory.Meta.ordering = ['warehouse', 'product']\<close>,
  \<^verbatim>\<open>StockReservation.Meta.ordering = ['-reserved_at']\<close>, no declared ordering for
  \<^verbatim>\<open>ReservationAllocation\<close>). None of these orderings looks at an expiry date.
\<close>

record db =
  products :: "product list"
  inventories :: "inventory list"
  reservations :: "reservation list"
  allocations :: "allocation list"

datatype error = DoesNotExist | ImportError | NameError | AttributeError

text \<open>
  The user-facing messages of \<^verbatim>\<open>inventory/services.py\<close>, in source order: product
  missing or delisted; product delisted; stock insufficient; backorder allowed; stock
  sufficient; reservation succeeded; reservation missing or already released; release
  succeeded; reservation missing; allocation shortfall; allocation of a line failed;
  allocation succeeded.
\<close>

datatype message =
    ProductMissing | ProductInactive | InsufficientStock | BackorderAllowed
  | StockSufficient | ReserveOk | ReleaseNotFound | ReleaseOk
  | AllocateNotFound | AllocationShortfall | AllocationLineFailed | AllocateOk

section \<open>Warehouse.update\_capacity\<close>

text \<open>
  \<^verbatim>\<open>used_capacity\<close> is a Decimal; the argument is a Decimal or an int (a float raises
  TypeError against a Decimal and is no value of this type). An action other than
  \<^verbatim>\<open>'increase'\<close> and \<^verbatim>\<open>'decrease'\<close> changes nothing before the clamp.
\<close>

definition update_capacity :: "warehouse \<Rightarrow> rat \<Rightarrow> string \<Rightarrow> warehouse" where
  "update_capacity self volume_change action =
     (let u = (if action = ''increase'' then used_capacity self + volume_change
               else if action = ''decrease'' then used_capacity self - volume_change
               else used_capacity self)
      in self\<lparr>used_capacity := (if u < 0 then 0 else u)\<rparr>)"

section \<open>Inventory: the stock row and its methods\<close>

text \<open>\<^verbatim>\<open>Inventory.save\<close> recomputes the stored available quantity before writing.\<close>

definition save_fields :: "inventory \<Rightarrow> inventory" where
  "save_fields self = self\<lparr>available_quantity := quantity self - reserved_quantity self\<rparr>"

definition inventory_reserve_stock :: "inventory \<Rightarrow> int \<Rightarrow> bool \<times> inventory" where
  "inventory_reserve_stock self q =
     (if available_quantity self \<ge> q
      then (True, save_fields (self\<lparr>reserved_quantity := reserved_quantity self + q\<rparr>))
      else (False, self))"

definition inventory_release_stock :: "inventory \<Rightarrow> int \<Rightarrow> bool \<times> inventory" where
  "inventory_release_stock self q =
     (if reserved_quantity self \<ge> q
      then (True, save_fields (self\<lparr>reserved_quantity := reserved_quantity self - q\<rparr>))
      else (False, self))"

text \<open>
  \<^verbatim>\<open>Inventory.allocate_stock\<close> also lowers the location and warehouse occupancy by
  \<^verbatim>\<open>quantity * product.volume\<close> when the product has a volume; \<^verbatim>\<open>Product\<close> declares
  no such attribute, so the volume is 0 and that branch is skipped.
\<close>

definition inventory_allocate_stock :: "inventory \<Rightarrow> int \<Rightarrow> bool \<times> inventory" where
  "inventory_allocate_stock self q =
     (if reserved_quantity self \<ge> q \<and> quantity self \<ge> q
      then (True, save_fields (self\<lparr>quantity := quantity self - q,
                                      reserved_quantity := reserved_quantity self - q\<rparr>))
      else (False, self))"

text \<open>The body of the loop of \<^verbatim>\<open>StockAdjustment.apply_adjustment\<close>, on one stock row.\<close>

definition apply_adjustment_item :: "inventory \<Rightarrow> int \<Rightarrow> string \<Rightarrow> inventory" where
  "apply_adjustment_item inventory change reason =
     (let q = quantity inventory + change;
          i1 = inventory\<lparr>quantity := (if q < 0 then 0 else q)\<rparr>;
          i2 = (if reason \<in> set [''damaged'', ''expired'']
                then i1\<lparr>inv_status := reason\<rparr> else i1)
      in save_fields i2)"

subsection \<open>Sequences of ledger operations on one stock row\<close>

datatype ledger_op = Reserve int | Release int | Allocate int | Adjust int string

fun step :: "ledger_op \<Rightarrow> inventory \<Rightarrow> inventory" where
  "step (Reserve q) l = snd (inventory_reserve_stock l q)"
| "step (Release q) l = snd (inventory_release_stock l q)"
| "step (Allocate q) l = snd (inventory_allocate_stock l q)"
| "step (Adjust d reason) l = apply_adjustment_item l d reason"

fun run :: "ledger_op list \<Rightarrow> inventory \<Rightarrow> inventory" where
  "run [] l = l"
| "run (x # xs) l = run xs (step x l)"

definition lot_invariant :: "inventory \<Rightarrow> bool" where
  "lot_invariant l \<longleftrightarrow>
     0 \<le> reserved_quantity l \<and> reserved_quantity l \<le> quantity l
     \<and> available_quantity l = quantity l - reserved_quantity l
     \<and> 0 \<le> available_quantity l"

text \<open>
  An operation is admissible in a state when its quantity is not negative and, for an
  adjustment, when the adjusted on-hand quantity still covers what is reserved.
\<close>

fun admissible :: "ledger_op \<Rightarrow> inventory \<Rightarrow> bool" where
  "admissible (Reserve q) l = (0 \<le> q)"
| "admissible (Release q) l = (0 \<le> q)"
| "admissible (Allocate q) l = (0 \<le> q)"
| "admissible (Adjust d reason) l = (reserved_quantity l \<le> quantity l + d)"

fun admissible_run :: "ledger_op list \<Rightarrow> inventory \<Rightarrow> bool" where
  "admissible_run [] l = True"
| "admissible_run (x # xs) l = (admissible x l \<and> admissible_run xs (step x l))"

section \<open>The database layer\<close>

text \<open>
  A foreign key is followed by a query for the row with that primary key; where no such
  row exists the access raises \<^verbatim>\<open>DoesNotExist\<close>. Saving an existing row updates the
  row with its primary key; saving a new reservation inserts it (it is the newest, so it
  comes first under \<^verbatim>\<open>-reserved_at\<close>); a new allocation line is appended.
\<close>

definition get_inventory :: "nat \<Rightarrow> db \<Rightarrow> inventory option" where
  "get_inventory i s = find (\<lambda>l. inv_id l = i) (inventories s)"

definition write_inventory :: "inventory \<Rightarrow> db \<Rightarrow> db" where
  "write_inventory self s =
     s\<lparr>inventories := map (\<lambda>l. if inv_id l = inv_id self then self else l) (inventories s)\<rparr>"

definition write_reservation :: "reservation \<Rightarrow> db \<Rightarrow> db" where
  "write_reservation self s =
     s\<lparr>reservations := map (\<lambda>r. if r_id r = r_id self then self else r) (reservations s)\<rparr>"

definition get_open_reservation :: "nat \<Rightarrow> db \<Rightarrow> reservation option" where
  "get_open_reservation rid s =
     find (\<lambda>r. r_id r = rid \<and> r_status r \<in> set [''reserved'', ''partially_reserved''])
       (reservations s)"

definition allocations_of :: "reservation \<Rightarrow> db \<Rightarrow> allocation list" where
  "allocations_of r s = filter (\<lambda>a. a_reservation a = r_id r) (allocations s)"

text \<open>
  \<^verbatim>\<open>@transaction.atomic\<close>: the body's writes are kept when it returns, whatever it
  returns, and undone when it raises.
\<close>

definition atomic :: "(db \<Rightarrow> error + 'a \<times> db) \<Rightarrow> db \<Rightarrow> (error + 'a) \<times> db" where
  "atomic body s = (case body s of Inl e \<Rightarrow> (Inl e, s) | Inr (v, s') \<Rightarrow> (Inr v, s'))"

section \<open>StockAdjustment.apply\_adjustment\<close>

text \<open>
  The method runs in no transaction of its own: when following an item's foreign key
  raises, the rows written so far stay written.
\<close>

fun apply_items :: "adjustment_item list \<Rightarrow> db \<Rightarrow> (error + unit) \<times> db" where
  "apply_items [] s = (Inr (), s)"
| "apply_items (item # items) s =
     (case get_inventory (item_inventory item) s of
        None \<Rightarrow> (Inl DoesNotExist, s)
      | Some inventory \<Rightarrow>
          apply_items items
            (write_inventory
               (apply_adjustment_item inventory (quantity_change item) (adjustment_reason item)) s))"

definition apply_adjustment :: "adjustment \<Rightarrow> db \<Rightarrow> (error + bool) \<times> adjustment \<times> db" where
  "apply_adjustment self s =
     (if adj_status self \<noteq> ''approved'' then (Inr False, self, s)
      else case apply_items (adjustment_items self) s of
             (Inl e, s') \<Rightarrow> (Inl e, self, s')
           | (Inr _, s') \<Rightarrow> (Inr True, self\<lparr>adj_status := ''completed''\<rparr>, s'))"

section \<open>Names and attributes\<close>

text \<open>
  The names that \<^verbatim>\<open>inventory/models.py\<close> binds at module level (its imports, its logger
  and its classes), and those that \<^verbatim>\<open>inventory/services.py\<close> binds.
  \<^verbatim>\<open>from .models import a, b\<close> raises ImportError unless the module binds every name
  asked for. A name read in a function is looked up among the function's local names,
  then in its module (then among the builtins, which hold none of the names at stake);
  it raises NameError when it is in neither.
\<close>

definition inventory_models_names :: "string list" where
  "inventory_models_names =
     [''models'', ''MinValueValidator'', ''MaxValueValidator'', ''timezone'', ''_'', ''uuid'',
      ''logging'', ''logger'', ''WarehouseZone'', ''WarehouseAisle'', ''WarehouseShelf'',
      ''Warehouse'', ''StorageLocation'', ''Inventory'', ''StockReservation'',
      ''ReservationAllocation'', ''StockTransfer'', ''TransferItem'', ''StockAdjustment'',
      ''AdjustmentItem'', ''WarehouseTransaction'', ''WarehouseTask'', ''TaskItem'',
      ''PutawayTask'', ''PickingTask'', ''WarehouseEquipment'', ''WarehouseStaffSchedule'',
      ''WarehousePerformanceMetrics'', ''WarehouseSafetyCheck'']"

definition services_names :: "string list" where
  "services_names =
     [''transaction'', ''ValidationError'', ''timezone'', ''Decimal'', ''logging'', ''logger'',
      ''InventoryService'', ''WarehouseService'']"

definition import_from :: "string list \<Rightarrow> string list \<Rightarrow> error + unit" where
  "import_from module_names wanted =
     (if list_all (\<lambda>n. n \<in> set module_names) wanted then Inr () else Inl ImportError)"

definition resolve_name :: "string list \<Rightarrow> string \<Rightarrow> error + unit" where
  "resolve_name local_names n =
     (if n \<in> set (local_names @ services_names) then Inr () else Inl NameError)"

text \<open>
  Reading a boolean attribute of a \<^verbatim>\<open>Product\<close> instance: the two boolean columns kept
  in the record are there, any other name raises AttributeError.
\<close>

definition product_attr :: "product \<Rightarrow> string \<Rightarrow> error + bool" where
  "product_attr p name =
     (if name = ''is_active'' then Inr (is_active p)
      else if name = ''allow_backorder'' then Inr (allow_backorder p)
      else Inl AttributeError)"

section \<open>InventoryService\<close>

text \<open>
  \<^verbatim>\<open>check_product_availability\<close> begins with
  \<^verbatim>\<open>from .models import Inventory, Product\<close>; the rest of its body follows the source
  line by line.
\<close>

definition check_product_availability ::
  "nat \<Rightarrow> int \<Rightarrow> nat option \<Rightarrow> db \<Rightarrow> error + bool \<times> message \<times> inventory list" where
  "check_product_availability product_id qty warehouse_id s =
     (case import_from inventory_models_names [''Inventory'', ''Product''] of
        Inl e \<Rightarrow> Inl e
      | Inr _ \<Rightarrow>
          (case find (\<lambda>p. p_id p = product_id \<and> is_active p) (products s) of
             None \<Rightarrow> Inr (False, ProductMissing, [])
           | Some product \<Rightarrow>
               (case product_attr product ''is_active_computed'' of
                  Inl e \<Rightarrow> Inl e
                | Inr active \<Rightarrow>
                    if \<not> active then Inr (False, ProductInactive, [])
                    else
                      let inventory_query =
                            filter (\<lambda>i. inv_product i = p_id product
                                          \<and> inv_status i = ''active''
                                          \<and> available_quantity i \<ge> qty) (inventories s);
                          available_inventories =
                            (case warehouse_id of
                               None \<Rightarrow> inventory_query
                             | Some w \<Rightarrow> filter (\<lambda>i. inv_warehouse i = w) inventory_query)
                      in if available_inventories = []
                         then (case product_attr product ''allow_backorders'' of
                                 Inl e \<Rightarrow> Inl e
                               | Inr backorders \<Rightarrow>
                                   if \<not> backorders then Inr (False, InsufficientStock, [])
                                   else Inr (True, BackorderAllowed, []))
                         else Inr (True, StockSufficient, available_inventories))))"

text \<open>
  The loop of \<^verbatim>\<open>reserve_stock\<close> over the candidate rows, as loaded by the query: it
  carries the remaining quantity and the lines allocated so far.
\<close>

fun reserve_lines ::
  "inventory list \<Rightarrow> int \<Rightarrow> (nat \<times> int) list \<Rightarrow> db \<Rightarrow> int \<times> (nat \<times> int) list \<times> db" where
  "reserve_lines [] remaining allocated s = (remaining, allocated, s)"
| "reserve_lines (inventory # rest) remaining allocated s =
     (if remaining \<le> 0 then (remaining, allocated, s)
      else
        let allocate_qty = min remaining (available_quantity inventory)
        in case inventory_reserve_stock inventory allocate_qty of
             (True, inventory') \<Rightarrow>
               reserve_lines rest (remaining - allocate_qty)
                 (allocated @ [(inv_id inventory, allocate_qty)]) (write_inventory inventory' s)
           | (False, _) \<Rightarrow> reserve_lines rest remaining allocated s)"

definition reserve_stock_body ::
  "nat \<Rightarrow> nat \<Rightarrow> int \<Rightarrow> nat option \<Rightarrow> db
     \<Rightarrow> error + (bool \<times> message \<times> reservation option) \<times> db" where
  "reserve_stock_body new_id product_id qty warehouse_id s =
     (case check_product_availability product_id qty warehouse_id s of
        Inl e \<Rightarrow> Inl e
      | Inr (False, message, _) \<Rightarrow> Inr ((False, message, None), s)
      | Inr (True, _, candidates) \<Rightarrow>
          let reservation0 =
                \<lparr>r_id = new_id, r_product = product_id, r_quantity = qty,
                 backorder_quantity = 0, r_status = ''reserved'', expires_at = None,
                 allocated_at = None, released_at = None\<rparr>;
              (remaining_quantity, allocated_inventories, s1) = reserve_lines candidates qty [] s;
              reservation =
                (if remaining_quantity > 0
                 then reservation0\<lparr>backorder_quantity := remaining_quantity\<rparr>
                 else reservation0);
              s2 = s1\<lparr>reservations := reservation # reservations s1\<rparr>;
              s3 = s2\<lparr>allocations := allocations s2 @
                      map (\<lambda>(i, q). \<lparr>a_reservation = new_id, a_inventory = i, a_quantity = q\<rparr>)
                        allocated_inventories\<rparr>
          in Inr ((True, ReserveOk, Some reservation), s3))"

text \<open>\<^verbatim>\<open>new_id\<close> is the UUID drawn for the new reservation.\<close>

definition reserve_stock ::
  "nat \<Rightarrow> nat \<Rightarrow> int \<Rightarrow> nat option \<Rightarrow> db
     \<Rightarrow> (error + bool \<times> message \<times> reservation option) \<times> db" where
  "reserve_stock new_id product_id qty warehouse_id =
     atomic (reserve_stock_body new_id product_id qty warehouse_id)"

text \<open>
  The loop of \<^verbatim>\<open>release_stock\<close>. Its body calls \<^verbatim>\<open>inventory.release_stock\<close> and does
  not look at the result: a row that refuses is left as it is, and the loop goes on.
\<close>

definition release_line :: "inventory \<Rightarrow> int \<Rightarrow> db \<Rightarrow> db" where
  "release_line inventory q s =
     (case inventory_release_stock inventory q of
        (True, inventory') \<Rightarrow> write_inventory inventory' s
      | (False, _) \<Rightarrow> s)"

fun release_lines :: "allocation list \<Rightarrow> db \<Rightarrow> error + db" where
  "release_lines [] s = Inr s"
| "release_lines (a # rest) s =
     (case get_inventory (a_inventory a) s of
        None \<Rightarrow> Inl DoesNotExist
      | Some inventory \<Rightarrow> release_lines rest (release_line inventory (a_quantity a) s))"

definition release_stock_body :: "int \<Rightarrow> nat \<Rightarrow> db \<Rightarrow> error + (bool \<times> message) \<times> db" where
  "release_stock_body now reservation_id s =
     (case get_open_reservation reservation_id s of
        None \<Rightarrow> Inr ((False, ReleaseNotFound), s)
      | Some reservation \<Rightarrow>
          (case release_lines (allocations_of reservation s) s of
             Inl e \<Rightarrow> Inl e
           | Inr s1 \<Rightarrow>
               Inr ((True, ReleaseOk),
                    write_reservation
                      (reservation\<lparr>r_status := ''released'', released_at := Some now\<rparr>) s1)))"

definition release_stock :: "int \<Rightarrow> nat \<Rightarrow> db \<Rightarrow> (error + bool \<times> message) \<times> db" where
  "release_stock now reservation_id = atomic (release_stock_body now reservation_id)"

text \<open>
  The loop of \<^verbatim>\<open>allocate_stock\<close>: the first row that refuses makes the function
  return, with no exception raised. Before the loop the function evaluates
  \<^verbatim>\<open>models.Sum('quantity')\<close>, with the local names \<^verbatim>\<open>reservation_id\<close>,
  \<^verbatim>\<open>StockReservation\<close> and \<^verbatim>\<open>reservation\<close> in scope.
\<close>

fun allocate_lines :: "allocation list \<Rightarrow> db \<Rightarrow> error + bool \<times> db" where
  "allocate_lines [] s = Inr (True, s)"
| "allocate_lines (a # rest) s =
     (case get_inventory (a_inventory a) s of
        None \<Rightarrow> Inl DoesNotExist
      | Some inventory \<Rightarrow>
          (case inventory_allocate_stock inventory (a_quantity a) of
             (False, _) \<Rightarrow> Inr (False, s)
           | (True, inventory') \<Rightarrow> allocate_lines rest (write_inventory inventory' s)))"

definition allocate_stock_body :: "int \<Rightarrow> nat \<Rightarrow> db \<Rightarrow> error + (bool \<times> message) \<times> db" where
  "allocate_stock_body now reservation_id s =
     (case get_open_reservation reservation_id s of
        None \<Rightarrow> Inr ((False, AllocateNotFound), s)
      | Some reservation \<Rightarrow>
          (case resolve_name [''reservation_id'', ''StockReservation'', ''reservation'']
                  ''models'' of
             Inl e \<Rightarrow> Inl e
           | Inr _ \<Rightarrow>
               let total_allocated = sum_list (map a_quantity (allocations_of reservation s))
               in if total_allocated < r_quantity reservation - backorder_quantity reservation
                  then Inr ((False, AllocationShortfall), s)
                  else
                    (case allocate_lines (allocations_of reservation s) s of
                       Inl e \<Rightarrow> Inl e
                     | Inr (False, s1) \<Rightarrow> Inr ((False, AllocationLineFailed), s1)
                     | Inr (True, s1) \<Rightarrow>
                         Inr ((True, AllocateOk),
                              write_reservation
                                (reservation\<lparr>r_status := ''allocated'',
                                             allocated_at := Some now\<rparr>)
                                s1))))"

definition allocate_stock :: "int \<Rightarrow> nat \<Rightarrow> db \<Rightarrow> (error + bool \<times> message) \<times> db" where
  "allocate_stock now reservation_id = atomic (allocate_stock_body now reservation_id)"

text \<open>\<^verbatim>\<open>StockReservation.is_expired\<close> and \<^verbatim>\<open>can_allocate\<close>; no service calls them.\<close>

definition is_expired :: "int \<Rightarrow> reservation \<Rightarrow> bool" where
  "is_expired now self = (case expires_at self of Some t \<Rightarrow> now > t | None \<Rightarrow> False)"

definition can_allocate :: "int \<Rightarrow> reservation \<Rightarrow> bool" where
  "can_allocate now self \<longleftrightarrow>
     r_status self \<in> set [''reserved'', ''partially_reserved''] \<and> \<not> is_expired now self"

section \<open>The expiry sweep (inventory/signals.py)\<close>





section \<open>Concrete states\<close>

text \<open>
  Rows and states at which the operations are evaluated below. A \<open>lot\<close> is an active
  stock row of product 1 whose stored available quantity agrees with its other two
  quantities; dates are written as numbers (\<open>20240101\<close> for 2024-01-01).
\<close>

definition lot :: "nat \<Rightarrow> nat \<Rightarrow> int \<Rightarrow> int \<Rightarrow> int option \<Rightarrow> inventory" where
  "lot i w q r e =
     \<lparr>inv_id = i, inv_product = 1, inv_warehouse = w, quantity = q, reserved_quantity = r,
      available_quantity = q - r, expiry_date = e, inv_created_at = int i,
      inv_status = ''active''\<rparr>"

definition open_reservation :: "nat \<Rightarrow> int \<Rightarrow> int \<Rightarrow> int option \<Rightarrow> reservation" where
  "open_reservation i q b e =
     \<lparr>r_id = i, r_product = 1, r_quantity = q, backorder_quantity = b, r_status = ''reserved'',
      expires_at = e, allocated_at = None, released_at = None\<rparr>"

definition line :: "nat \<Rightarrow> nat \<Rightarrow> int \<Rightarrow> allocation" where
  "line r i q = \<lparr>a_reservation = r, a_inventory = i, a_quantity = q\<rparr>"

definition prod1 :: "bool \<Rightarrow> product" where
  "prod1 b = \<lparr>p_id = 1, is_active = True, allow_backorder = b\<rparr>"

definition lot0 :: inventory where
  "lot0 = lot 1 1 10 0 None"

definition warehouse0 :: warehouse where
  "warehouse0 = \<lparr>w_id = 1, total_capacity = 100, used_capacity = 3\<rparr>"

definition clamp_adjustment :: adjustment where
  "clamp_adjustment =
     \<lparr>adj_status = ''approved'',
      adjustment_items =
        [\<lparr>item_inventory = 1, quantity_change = -5, adjustment_reason = ''other''\<rparr>]\<rparr>"

definition clamp_db :: db where
  "clamp_db = \<lparr>products = [prod1 False], inventories = [lot 1 1 3 0 None],
               reservations = [], allocations = []\<rparr>"

text \<open>One reservation of 2 units held on a row with 5 on hand.\<close>

definition held_db :: db where
  "held_db = \<lparr>products = [prod1 False], inventories = [lot 1 1 5 2 None],
              reservations = [open_reservation 1 2 0 None], allocations = [line 1 1 2]\<rparr>"

text \<open>The same, with a reservation that expired at time 40.\<close>

definition expired_db :: db where
  "expired_db = \<lparr>products = [prod1 False], inventories = [lot 1 1 5 2 None],
                 reservations = [open_reservation 1 2 0 (Some 40)],
                 allocations = [line 1 1 2]\<rparr>"

text \<open>Two rows of one product: 5 units expiring 2024-01-01 and 10 expiring 2024-06-01.\<close>

definition fefo_db :: db where
  "fefo_db = \<lparr>products = [prod1 False],
              inventories = [lot 1 1 5 0 (Some 20240101), lot 2 1 10 0 (Some 20240601)],
              reservations = [], allocations = []\<rparr>"

text \<open>
  A reservation of 5 with two lines, 3 on row 1 and 2 on row 2; an adjustment has since
  taken row 2 down to 1 unit on hand.
\<close>

definition two_line_db :: db where
  "two_line_db = \<lparr>products = [prod1 False],
                  inventories = [lot 1 1 5 3 None, lot 2 1 1 2 None],
                  reservations = [open_reservation 1 5 0 None],
                  allocations = [line 1 1 3, line 1 2 2]\<rparr>"

text \<open>
  A reservation of 5 units whose only line holds 3: a shortfall of 2. And a row with 10
  units on hand and nothing reserved.
\<close>

definition shortfall_db :: db where
  "shortfall_db = \<lparr>products = [prod1 False], inventories = [lot 1 1 5 3 None],
                   reservations = [open_reservation 1 5 0 None],
                   allocations = [line 1 1 3]\<rparr>"


text \<open>A product that allows backorders, with 3 units available.\<close>

definition backorder_db :: db where
  "backorder_db = \<lparr>products = [prod1 True], inventories = [lot 1 1 3 0 None],
                   reservations = [], allocations = []\<rparr>"



section \<open>Predicates on states\<close>



section \<open>Facts about the database layer\<close>

lemma find_replace:
  "find (\<lambda>l. inv_id l = i) xs = Some l \<Longrightarrow> inv_id l' = i
   \<Longrightarrow> find (\<lambda>l. inv_id l = i) (map (\<lambda>l. if inv_id l = i then l' else l) xs) = Some l'"
  by (induction xs) (auto split: if_splits)

lemma get_inventory_write:
  "get_inventory i s = Some l \<Longrightarrow> inv_id l' = i
   \<Longrightarrow> get_inventory i (write_inventory l' s) = Some l'"
  by (simp add: get_inventory_def write_inventory_def find_replace)

lemma get_inventory_id: "get_inventory i s = Some l \<Longrightarrow> inv_id l = i"
  by (auto simp: get_inventory_def find_Some_iff)

lemma get_inventory_mem: "get_inventory i s = Some l \<Longrightarrow> l \<in> set (inventories s)"
  by (auto simp: get_inventory_def find_Some_iff)




lemma get_open_reservation_id:
  "get_open_reservation rid s = Some r \<Longrightarrow> r_id r = rid"
  by (auto simp: get_open_reservation_def find_Some_iff)

lemma find_closed:
  "\<not> P r' \<Longrightarrow>
   find (\<lambda>x. r_id x = rid \<and> P x) (map (\<lambda>x. if r_id x = rid then r' else x) xs) = None"
  by (induction xs) auto

section \<open>Warehouse capacity\<close>

text \<open>
  C10. Whatever the warehouse, the volume and the action, \<open>used_capacity\<close> is not
  negative after \<open>update_capacity\<close>; a decrease by more than the current value is not
  refused, it leaves the counter at 0.
\<close>

theorem update_capacity_never_negative:
  "0 \<le> used_capacity (update_capacity w v a)
   \<and> (used_capacity w < v \<longrightarrow> used_capacity (update_capacity w v ''decrease'') = 0)"
  by (simp add: update_capacity_def Let_def)

theorem update_capacity_never_negative_witness:
  "used_capacity warehouse0 < 5
   \<and> 0 \<le> used_capacity (update_capacity warehouse0 5 ''decrease'')
   \<and> used_capacity (update_capacity warehouse0 5 ''decrease'') = 0"
  using update_capacity_never_negative [of warehouse0 5 "''decrease''"]
  by (simp add: warehouse0_def)

section \<open>The invariant of a stock row\<close>

lemma step_invariant:
  "lot_invariant l \<Longrightarrow> admissible x l \<Longrightarrow> lot_invariant (step x l)"
  by (cases x)
     (auto simp: lot_invariant_def inventory_reserve_stock_def inventory_release_stock_def
        inventory_allocate_stock_def apply_adjustment_item_def save_fields_def Let_def)

text \<open>
  C1, as the code has it. From a row that satisfies the invariant, every sequence of
  reserve, release and allocate calls with quantities that are not negative, and of
  adjustment items that leave at least the reserved quantity on hand, ends in a row with
  \<open>0 \<le> reserved \<le> quantity\<close> and \<open>available = quantity - reserved \<ge> 0\<close>.
\<close>

theorem lot_invariant_admissible_run:
  "lot_invariant l \<Longrightarrow> admissible_run ops l \<Longrightarrow> lot_invariant (run ops l)"
  by (induction ops arbitrary: l) (auto intro: step_invariant)

theorem lot_invariant_admissible_run_witness:
  "lot_invariant lot0
   \<and> admissible_run [Reserve 5, Release 2, Adjust (-3) ''theft'', Allocate 3] lot0
   \<and> lot_invariant (run [Reserve 5, Release 2, Adjust (-3) ''theft'', Allocate 3] lot0)"
proof -
  have a: "lot_invariant lot0"
    by (simp add: lot_invariant_def lot0_def lot_def)
  have b: "admissible_run [Reserve 5, Release 2, Adjust (-3) ''theft'', Allocate 3] lot0"
    by (simp add: lot0_def lot_def inventory_reserve_stock_def inventory_release_stock_def
        apply_adjustment_item_def save_fields_def Let_def)
  from a b lot_invariant_admissible_run [OF a b] show ?thesis by simp
qed

text \<open>
  C1 as stated fails: an adjustment does not look at the reserved quantity. With 10 on
  hand, reserving 5 and then adjusting by -8 leaves 2 on hand, 5 reserved and -3
  available.
\<close>

theorem lot_invariant_adjust_counterexample:
  "lot_invariant lot0 \<and> \<not> lot_invariant (run [Reserve 5, Adjust (-8) ''theft''] lot0)"
  by (simp add: lot_invariant_def lot0_def lot_def inventory_reserve_stock_def
      apply_adjustment_item_def save_fields_def Let_def)

text \<open>
  What survives every adjustment: with quantities that are not negative, the on-hand and
  reserved quantities stay non-negative and the stored available quantity stays their
  difference; only the bound of the reserved quantity by the on-hand quantity can be lost.
\<close>

lemma run_keeps_nonnegative:
  assumes "0 \<le> quantity l" and "0 \<le> reserved_quantity l"
    and "available_quantity l = quantity l - reserved_quantity l"
    and "list_all (\<lambda>x. case x of Adjust d r \<Rightarrow> True | Reserve q \<Rightarrow> 0 \<le> q
                          | Release q \<Rightarrow> 0 \<le> q | Allocate q \<Rightarrow> 0 \<le> q) ops"
  shows "0 \<le> quantity (run ops l) \<and> 0 \<le> reserved_quantity (run ops l)
         \<and> available_quantity (run ops l) = quantity (run ops l) - reserved_quantity (run ops l)"
  using assms
proof (induction ops arbitrary: l)
  case Nil
  then show ?case by simp
next
  case (Cons x xs)
  have "0 \<le> quantity (step x l) \<and> 0 \<le> reserved_quantity (step x l)
        \<and> available_quantity (step x l) = quantity (step x l) - reserved_quantity (step x l)"
    using Cons.prems
    by (cases x)
       (auto simp: inventory_reserve_stock_def inventory_release_stock_def
          inventory_allocate_stock_def apply_adjustment_item_def save_fields_def Let_def)
  with Cons show ?case by simp
qed

section \<open>Applying an adjustment\<close>

lemma apply_items_append:
  "apply_items (xs @ ys) s =
     (case apply_items xs s of (Inl e, s') \<Rightarrow> (Inl e, s') | (Inr u, s') \<Rightarrow> apply_items ys s')"
  by (induction xs arbitrary: s) (auto split: option.splits)

lemma apply_adjustment_item_fields:
  "inv_id (apply_adjustment_item l d r) = inv_id l"
  "reserved_quantity (apply_adjustment_item l d r) = reserved_quantity l"
  "quantity (apply_adjustment_item l d r) = max 0 (quantity l + d)"
  by (simp_all add: apply_adjustment_item_def save_fields_def Let_def)

text \<open>
  C2, as the code has it. An approved adjustment whose last item would take its stock
  row below zero is applied: the call returns True, the adjustment is completed, and the
  row is written with quantity 0 and its reserved quantity untouched.
\<close>

theorem apply_adjustment_clamps:
  assumes "adj_status adj = ''approved''"
    and "adjustment_items adj = pre @ [item]"
    and "apply_items pre s = (Inr (), s1)"
    and "get_inventory (item_inventory item) s1 = Some l"
    and "quantity l + quantity_change item < 0"
  shows "\<exists>l'. apply_adjustment adj s =
           (Inr True, adj\<lparr>adj_status := ''completed''\<rparr>, write_inventory l' s1)
         \<and> get_inventory (item_inventory item) (write_inventory l' s1) = Some l'
         \<and> quantity l' = 0 \<and> reserved_quantity l' = reserved_quantity l"
proof -
  let ?l' = "apply_adjustment_item l (quantity_change item) (adjustment_reason item)"
  have id: "inv_id ?l' = item_inventory item"
    using assms(4) by (simp add: apply_adjustment_item_fields get_inventory_id)
  have "apply_items (pre @ [item]) s = (Inr (), write_inventory ?l' s1)"
    using assms(3,4) by (simp add: apply_items_append)
  then have "apply_adjustment adj s =
      (Inr True, adj\<lparr>adj_status := ''completed''\<rparr>, write_inventory ?l' s1)"
    using assms(1,2) by (simp add: apply_adjustment_def)
  moreover have "get_inventory (item_inventory item) (write_inventory ?l' s1) = Some ?l'"
    using assms(4) id by (rule get_inventory_write)
  moreover have "quantity ?l' = 0" "reserved_quantity ?l' = reserved_quantity l"
    using assms(5) by (simp_all add: apply_adjustment_item_fields)
  ultimately show ?thesis by blast
qed

theorem apply_adjustment_clamps_witness:
  "adj_status clamp_adjustment = ''approved''
   \<and> adjustment_items clamp_adjustment =
       [] @ [\<lparr>item_inventory = 1, quantity_change = -5, adjustment_reason = ''other''\<rparr>]
   \<and> apply_items [] clamp_db = (Inr (), clamp_db)
   \<and> get_inventory 1 clamp_db = Some (lot 1 1 3 0 None)
   \<and> quantity (lot 1 1 3 0 None) + (-5) < 0
   \<and> (\<exists>l'. apply_adjustment clamp_adjustment clamp_db =
           (Inr True, clamp_adjustment\<lparr>adj_status := ''completed''\<rparr>,
            write_inventory l' clamp_db)
         \<and> get_inventory 1 (write_inventory l' clamp_db) = Some l'
         \<and> quantity l' = 0 \<and> reserved_quantity l' = 0)"
proof -
  let ?item = "\<lparr>item_inventory = 1, quantity_change = -5, adjustment_reason = ''other''\<rparr>"
  have a: "adj_status clamp_adjustment = ''approved''"
    by (simp add: clamp_adjustment_def)
  have b: "adjustment_items clamp_adjustment = [] @ [?item]"
    by (simp add: clamp_adjustment_def)
  have c: "apply_items [] clamp_db = (Inr (), clamp_db)" by simp
  have d: "get_inventory (item_inventory ?item) clamp_db = Some (lot 1 1 3 0 None)"
    by (simp add: get_inventory_def clamp_db_def lot_def)
  have e: "quantity (lot 1 1 3 0 None) + quantity_change ?item < 0"
    by (simp add: lot_def)
  from apply_adjustment_clamps [OF a b c d e] a b c d e show ?thesis
    by (simp add: lot_def)
qed

text \<open>
  C2 as stated fails: with 3 on hand and a change of -5 the adjustment returns True and
  the row is left with 0 on hand, not with 3.
\<close>

theorem apply_adjustment_clamps_counterexample:
  "apply_adjustment clamp_adjustment clamp_db =
     (Inr True, clamp_adjustment\<lparr>adj_status := ''completed''\<rparr>,
      clamp_db\<lparr>inventories := [lot 1 1 0 0 None]\<rparr>)"
  by (simp add: apply_adjustment_def clamp_adjustment_def clamp_db_def lot_def
      get_inventory_def write_inventory_def apply_adjustment_item_def save_fields_def Let_def)

section \<open>Releasing a reservation twice\<close>

text \<open>
  C4, as the code has it. After a release that succeeded, a second release of the same
  reservation changes nothing and returns False with the message that the reservation
  is missing or already released.
\<close>

theorem release_stock_second_call:
  assumes "release_stock now rid s = (Inr (True, m), s1)"
  shows "release_stock now' rid s1 = (Inr (False, ReleaseNotFound), s1)"
proof -
  from assms obtain r s' where r: "get_open_reservation rid s = Some r"
    and s1: "s1 = write_reservation (r\<lparr>r_status := ''released'', released_at := Some now\<rparr>) s'"
    by (auto simp: release_stock_def atomic_def release_stock_body_def
        split: option.splits sum.splits)
  have "r_id r = rid" using r by (rule get_open_reservation_id)
  then have "get_open_reservation rid s1 = None"
    unfolding s1 get_open_reservation_def write_reservation_def
    by (simp add: find_closed
        [where P = "\<lambda>x. r_status x = ''reserved'' \<or> r_status x = ''partially_reserved''"])
  then show ?thesis
    by (simp add: release_stock_def atomic_def release_stock_body_def)
qed

theorem release_stock_second_call_witness:
  "release_stock 100 1 held_db =
     (Inr (True, ReleaseOk),
      held_db\<lparr>inventories := [lot 1 1 5 0 None],
              reservations := [(open_reservation 1 2 0 None)
                                 \<lparr>r_status := ''released'', released_at := Some 100\<rparr>]\<rparr>)
   \<and> release_stock 200 1
       (held_db\<lparr>inventories := [lot 1 1 5 0 None],
               reservations := [(open_reservation 1 2 0 None)
                                  \<lparr>r_status := ''released'', released_at := Some 100\<rparr>]\<rparr>) =
     (Inr (False, ReleaseNotFound),
      held_db\<lparr>inventories := [lot 1 1 5 0 None],
              reservations := [(open_reservation 1 2 0 None)
                                 \<lparr>r_status := ''released'', released_at := Some 100\<rparr>]\<rparr>)"
proof -
  have a: "release_stock 100 1 held_db =
     (Inr (True, ReleaseOk),
      held_db\<lparr>inventories := [lot 1 1 5 0 None],
              reservations := [(open_reservation 1 2 0 None)
                                 \<lparr>r_status := ''released'', released_at := Some 100\<rparr>]\<rparr>)"
    by (simp add: release_stock_def atomic_def release_stock_body_def get_open_reservation_def
        allocations_of_def held_db_def open_reservation_def line_def lot_def get_inventory_def
        release_line_def inventory_release_stock_def save_fields_def write_inventory_def
        write_reservation_def)
  from a release_stock_second_call [OF a, of 200] show ?thesis by simp
qed

text \<open>
  C4 as stated fails: the second call does not return success. On the state left by
  releasing reservation 1 of \<open>held_db\<close>, releasing it again returns False.
\<close>

theorem release_stock_second_call_counterexample:
  "fst (release_stock 200 1 (snd (release_stock 100 1 held_db)))
     = Inr (False, ReleaseNotFound)
   \<and> fst (release_stock 100 1 held_db) = Inr (True, ReleaseOk)"
  by (simp add: release_stock_def atomic_def release_stock_body_def get_open_reservation_def
      allocations_of_def held_db_def open_reservation_def line_def lot_def get_inventory_def
      release_line_def inventory_release_stock_def save_fields_def write_inventory_def
      write_reservation_def)


section \<open>The lookups that fail\<close>

lemma import_product_fails:
  "import_from inventory_models_names [''Inventory'', ''Product''] = Inl ImportError"
  by (simp add: import_from_def inventory_models_names_def)

lemma models_unbound:
  "resolve_name [''reservation_id'', ''StockReservation'', ''reservation''] ''models''
     = Inl NameError"
  by (simp add: resolve_name_def services_names_def)

lemma check_product_availability_raises:
  "check_product_availability product_id qty warehouse_id s = Inl ImportError"
  by (simp add: check_product_availability_def import_product_fails)

text \<open>Every call of \<^verbatim>\<open>reserve_stock\<close> raises and writes nothing.\<close>

lemma reserve_stock_raises:
  "reserve_stock new_id product_id qty warehouse_id s = (Inl ImportError, s)"
  by (simp add: reserve_stock_def atomic_def reserve_stock_body_def
      check_product_availability_raises)

text \<open>
  \<^verbatim>\<open>allocate_stock\<close> raises for every reservation it finds open, returns False for
  every other one, and writes nothing either way.
\<close>

lemma allocate_stock_open_raises:
  "get_open_reservation rid s = Some r \<Longrightarrow> allocate_stock now rid s = (Inl NameError, s)"
  by (simp add: allocate_stock_def atomic_def allocate_stock_body_def models_unbound)

lemma allocate_stock_not_open:
  "get_open_reservation rid s = None \<Longrightarrow>
   allocate_stock now rid s = (Inr (False, AllocateNotFound), s)"
  by (simp add: allocate_stock_def atomic_def allocate_stock_body_def)

lemma allocate_stock_never_writes:
  "snd (allocate_stock now rid s) = s \<and> fst (allocate_stock now rid s) \<noteq> Inr (True, m)"
  by (cases "get_open_reservation rid s")
     (simp_all add: allocate_stock_open_raises allocate_stock_not_open)

section \<open>Reserving stock\<close>

text \<open>
  C5. With 5 units expiring 2024-01-01 and 10 units expiring 2024-06-01, reserving 8
  raises ImportError: nothing is taken from either row and no allocation line is
  written.
\<close>

theorem reserve_stock_fefo_raises:
  "reserve_stock 7 1 8 None fefo_db = (Inl ImportError, fefo_db)
   \<and> map reserved_quantity (inventories fefo_db) = [0, 0]
   \<and> allocations fefo_db = []"
  by (simp add: reserve_stock_raises fefo_db_def lot_def)

text \<open>
  C7. For a product that allows backorders and has 3 units available, reserving 5
  raises ImportError: no reservation is created, so no backorder quantity and no status
  are recorded.
\<close>

theorem reserve_stock_backorder_raises:
  "allow_backorder (prod1 True)
   \<and> reserve_stock 7 1 5 None backorder_db = (Inl ImportError, backorder_db)
   \<and> reservations backorder_db = []"
  by (simp add: reserve_stock_raises backorder_db_def prod1_def)

section \<open>Allocating a reservation\<close>

text \<open>
  The loop after the failing lookup, taken by itself: on the two lines of
  \<open>two_line_db\<close> it returns False at the second row with the first row already written.
  Nothing undoes that write when the loop is left by a return.
\<close>

lemma allocate_lines_returns_early:
  "allocate_lines [line 1 1 3, line 1 2 2] two_line_db =
     Inr (False, two_line_db\<lparr>inventories := [lot 1 1 2 0 None, lot 2 1 1 2 None]\<rparr>)"
  by (simp add: two_line_db_def line_def lot_def get_inventory_def
      inventory_allocate_stock_def save_fields_def write_inventory_def)

text \<open>
  C3. The reservation of \<open>shortfall_db\<close> asks for 5 units and its lines hold 3. The
  call does not return the shortfall failure: it raises NameError before the test, and
  the state is unchanged.
\<close>

theorem allocate_stock_shortfall_raises:
  "sum_list (map a_quantity (allocations_of (open_reservation 1 5 0 None) shortfall_db))
     < r_quantity (open_reservation 1 5 0 None) - backorder_quantity (open_reservation 1 5 0 None)
   \<and> allocate_stock 100 1 shortfall_db = (Inl NameError, shortfall_db)"
proof -
  have "get_open_reservation 1 shortfall_db = Some (open_reservation 1 5 0 None)"
    by (simp add: get_open_reservation_def shortfall_db_def open_reservation_def)
  then have "allocate_stock 100 1 shortfall_db = (Inl NameError, shortfall_db)"
    by (rule allocate_stock_open_raises)
  then show ?thesis
    by (simp add: allocations_of_def shortfall_db_def open_reservation_def line_def)
qed

text \<open>
  C6. The reservation of \<open>expired_db\<close> expired at time 40 and \<open>can_allocate\<close> refuses
  it at time 100. \<open>allocate_stock\<close> raises NameError on it, as it does on the
  reservation of \<open>held_db\<close>, which has no expiry: the failure does not come from the
  expiry, which the function never reads.
\<close>

theorem allocate_stock_expired_raises:
  "is_expired 100 (open_reservation 1 2 0 (Some 40))
   \<and> \<not> can_allocate 100 (open_reservation 1 2 0 (Some 40))
   \<and> allocate_stock 100 1 expired_db = (Inl NameError, expired_db)
   \<and> allocate_stock 100 1 held_db = (Inl NameError, held_db)"
proof -
  have "get_open_reservation 1 expired_db = Some (open_reservation 1 2 0 (Some 40))"
    by (simp add: get_open_reservation_def expired_db_def open_reservation_def)
  then have a: "allocate_stock 100 1 expired_db = (Inl NameError, expired_db)"
    by (rule allocate_stock_open_raises)
  have "get_open_reservation 1 held_db = Some (open_reservation 1 2 0 None)"
    by (simp add: get_open_reservation_def held_db_def open_reservation_def)
  then have b: "allocate_stock 100 1 held_db = (Inl NameError, held_db)"
    by (rule allocate_stock_open_raises)
  from a b show ?thesis
    by (simp add: is_expired_def can_allocate_def open_reservation_def)
qed

section \<open>Reserve, then release\<close>

text \<open>
  The two methods of a stock row do undo each other: on a row with a reserved quantity
  that is not negative and a stored available quantity equal to quantity minus reserved,
  a reservation that succeeded is taken back exactly by a release of the same quantity.
\<close>

lemma inventory_reserve_release:
  assumes "0 \<le> reserved_quantity l"
    and "available_quantity l = quantity l - reserved_quantity l"
    and "inventory_reserve_stock l q = (True, l')"
  shows "inventory_release_stock l' q = (True, l)"
  using assms
  by (auto simp: inventory_reserve_stock_def inventory_release_stock_def save_fields_def
      split: if_splits)


section \<open>The expiry sweep\<close>




lemma release_stock_raise:
  "release_stock now i s = (Inl e, s') \<Longrightarrow> s' = s"
  by (auto simp: release_stock_def atomic_def split: sum.splits)













end
